theory Spec2Isabelle
  imports Complex_Main "HOL-Library.Monad_Syntax"
begin

section \<open>Configuration constants (class Config of src/app.py)\<close>

text \<open>
  Python floats are modelled as real numbers.  Where a result depends on how the machine
  arithmetic rounds, in the statistics of \<open>calibrate\<close>, the arithmetic is a parameter of
  the model.  Pixel coordinates delivered by the landmark detector and the screen size are
  integers.
\<close>

definition SCREEN_PADDING :: int where "SCREEN_PADDING = 50"
definition MOUSE_SPEED :: real where "MOUSE_SPEED = 1.2"
definition ACCELERATION_FACTOR :: real where "ACCELERATION_FACTOR = 1.5"
definition DECELERATION_FACTOR :: real where "DECELERATION_FACTOR = 0.8"
definition CALIBRATION_FRAMES :: nat where "CALIBRATION_FRAMES = 15"
definition CALIBRATION_THRESHOLD :: real where "CALIBRATION_THRESHOLD = 0.7"
definition MOVEMENT_THRESHOLD :: real where "MOVEMENT_THRESHOLD = 2.0"
definition SMOOTH_FACTOR :: real where "SMOOTH_FACTOR = 0.3"
definition EYE_AR_CONSEC_FRAMES :: nat where "EYE_AR_CONSEC_FRAMES = 2"
definition BLINK_COOLDOWN :: real where "BLINK_COOLDOWN = 1.0"
definition MOUTH_AR_CONSEC_FRAMES :: nat where "MOUTH_AR_CONSEC_FRAMES = 3"
definition MOUTH_COOLDOWN :: real where "MOUTH_COOLDOWN = 1.0"
definition BLINK_SENSITIVITY :: real where "BLINK_SENSITIVITY = 0.23"
definition MOUTH_SENSITIVITY :: real where "MOUTH_SENSITIVITY = 0.5"
definition CLICK_COOLDOWN :: real where "CLICK_COOLDOWN = 0.5"

section \<open>Landmarks and aspect ratios (class GestureDetector)\<close>

text \<open>
  A landmark set is the list of the detector's points; \<open>landmarks.part(i)\<close> raises when
  \<open>i\<close> is out of range, which is the value \<open>None\<close> here.
\<close>

type_synonym landmarks = "(int \<times> int) list"

definition part :: "landmarks \<Rightarrow> nat \<Rightarrow> (int \<times> int) option" where
  "part lm i = (if i < length lm then Some (lm ! i) else None)"

text \<open>Python's \<open>xs[i]\<close> for a non-negative index: IndexError is \<open>None\<close>.\<close>

definition item :: "'a list \<Rightarrow> nat \<Rightarrow> 'a option" where
  "item xs i = (if i < length xs then Some (xs ! i) else None)"

text \<open>\<open>np.linalg.norm(np.array(a) - np.array(b))\<close> for two integer points.\<close>

definition norm_diff :: "int \<times> int \<Rightarrow> int \<times> int \<Rightarrow> real" where
  "norm_diff a b = sqrt (real_of_int ((fst a - fst b)\<^sup>2 + (snd a - snd b)\<^sup>2))"

text \<open>
  The body of \<open>get_eye_aspect_ratio\<close> inside its \<open>try\<close>: \<open>None\<close> when a lookup raises.
  The points are those of \<open>range(start, end + 1)\<close>.
\<close>

definition eye_aspect_ratio_body :: "landmarks \<Rightarrow> nat \<Rightarrow> nat \<Rightarrow> real option" where
  "eye_aspect_ratio_body lm start stop = do {
     eye_points \<leftarrow> those (map (part lm) [start ..< stop + 1]);
     p1 \<leftarrow> item eye_points 1;
     p5 \<leftarrow> item eye_points 5;
     p2 \<leftarrow> item eye_points 2;
     p4 \<leftarrow> item eye_points 4;
     p0 \<leftarrow> item eye_points 0;
     p3 \<leftarrow> item eye_points 3;
     let v1 = norm_diff p1 p5;
         v2 = norm_diff p2 p4;
         h = norm_diff p0 p3
     in Some (if h > 0 then (v1 + v2) / (2 * h) else 0)
   }"

definition get_eye_aspect_ratio :: "landmarks \<Rightarrow> nat \<Rightarrow> nat \<Rightarrow> real" where
  "get_eye_aspect_ratio lm start stop =
     (case eye_aspect_ratio_body lm start stop of None \<Rightarrow> 0 | Some r \<Rightarrow> r)"

definition mouth_aspect_ratio_body :: "landmarks \<Rightarrow> real option" where
  "mouth_aspect_ratio_body lm = do {
     mouth_points \<leftarrow> those (map (part lm) [60 ..< 68]);
     m2 \<leftarrow> item mouth_points 2;
     m6 \<leftarrow> item mouth_points 6;
     m3 \<leftarrow> item mouth_points 3;
     m5 \<leftarrow> item mouth_points 5;
     m0 \<leftarrow> item mouth_points 0;
     m4 \<leftarrow> item mouth_points 4;
     let v1 = norm_diff m2 m6;
         v2 = norm_diff m3 m5;
         h = norm_diff m0 m4
     in Some (if h > 0 then (v1 + v2) / (2 * h) else 0)
   }"

definition get_mouth_aspect_ratio :: "landmarks \<Rightarrow> real" where
  "get_mouth_aspect_ratio lm =
     (case mouth_aspect_ratio_body lm of None \<Rightarrow> 0 | Some r \<Rightarrow> r)"

section \<open>Debounced gesture detection\<close>

record GestureDetector =
  eye_ar_counter :: nat
  mouth_ar_counter :: nat
  last_blink_time :: real
  last_mouth_time :: real
  blink_detected :: bool
  double_blink_pending :: bool
  mouth_open :: bool

text \<open>The blink ratio of a frame: the mean of both eyes' aspect ratios.\<close>

definition blink_ear :: "landmarks \<Rightarrow> real" where
  "blink_ear lm = (get_eye_aspect_ratio lm 36 41 + get_eye_aspect_ratio lm 42 47) / 2"

text \<open>
  \<open>detect_blink\<close> and \<open>detect_mouth_open\<close> read the clock once (\<open>current_time\<close>, the
  argument \<open>now\<close>) and return the result together with the updated detector.
\<close>

definition detect_blink :: "GestureDetector \<Rightarrow> landmarks \<Rightarrow> real \<Rightarrow> real \<Rightarrow> bool \<times> GestureDetector" where
  "detect_blink g lm threshold now =
     (let ear = blink_ear lm in
      if ear < threshold then (False, g\<lparr>eye_ar_counter := eye_ar_counter g + 1\<rparr>)
      else if eye_ar_counter g \<ge> EYE_AR_CONSEC_FRAMES then
        (if now - last_blink_time g \<ge> BLINK_COOLDOWN then (True, g\<lparr>last_blink_time := now\<rparr>)
         else (False, g\<lparr>eye_ar_counter := 0\<rparr>))
      else (False, g\<lparr>eye_ar_counter := 0\<rparr>))"

definition detect_mouth_open :: "GestureDetector \<Rightarrow> landmarks \<Rightarrow> real \<Rightarrow> real \<Rightarrow> bool \<times> GestureDetector" where
  "detect_mouth_open g lm threshold now =
     (let mouth_ratio = get_mouth_aspect_ratio lm in
      if mouth_ratio > threshold then (False, g\<lparr>mouth_ar_counter := mouth_ar_counter g + 1\<rparr>)
      else if mouth_ar_counter g \<ge> MOUTH_AR_CONSEC_FRAMES then
        (if now - last_mouth_time g \<ge> MOUTH_COOLDOWN then (True, g\<lparr>last_mouth_time := now\<rparr>)
         else (False, g\<lparr>mouth_ar_counter := 0\<rparr>))
      else (False, g\<lparr>mouth_ar_counter := 0\<rparr>))"

text \<open>\<open>GestureDetector.__init__\<close>; the two arguments are its two clock readings.\<close>

definition new_GestureDetector :: "real \<Rightarrow> real \<Rightarrow> GestureDetector" where
  "new_GestureDetector t1 t2 =
     \<lparr>eye_ar_counter = 0, mouth_ar_counter = 0, last_blink_time = t1, last_mouth_time = t2,
      blink_detected = False, double_blink_pending = False, mouth_open = False\<rparr>"


text \<open>
  Two landmark sets of 68 points used as concrete frames: in \<open>closed_eyes\<close> all points
  coincide, so every ratio is 0; in \<open>open_eyes\<close> both eyes have the six points
  \<open>(0,1) (1,2) (1,2) (2,1) (1,0) (1,0)\<close>, of aspect ratio 1.
\<close>

definition closed_eyes :: landmarks where
  "closed_eyes = replicate 68 (100, 100)"


section \<open>Profiles and the tracker state (classes UserProfile and FaceTracker)\<close>

text \<open>
  A region is the list \<open>[x1, y1, x2, y2]\<close> of the profile; \<open>None\<close> is the profile without a
  region (the value is falsy in \<open>process_frame\<close>).
\<close>

type_synonym rect = "real \<times> real \<times> real \<times> real"

record UserProfile =
  name :: string
  sensitivity :: real
  smoothing :: real
  blink_threshold :: real
  mouth_threshold :: real
  region_bounds :: "rect option"
  calibration_data :: "(real \<times> real) option"

text \<open>
  The fields of \<open>FaceTracker\<close> that its methods read or write.  \<open>position_history\<close>,
  \<open>performance\<close>, \<open>frame_count\<close> and \<open>executor\<close> are used by none of the methods below.
\<close>

record FaceTracker =
  velocity :: "real \<times> real"
  screen_w :: int
  screen_h :: int
  is_calibrated :: bool
  calibration_points :: "(real \<times> real) list"
  reference_point :: "(real \<times> real) option"
  last_update :: real
  gesture_detector :: GestureDetector
  is_paused :: bool
  is_tracking :: bool
  current_profile :: UserProfile
  last_click_time :: real

text \<open>
  \<open>UserProfile.__init__\<close> and \<open>FaceTracker.__init__\<close>.  The screen size, the clock readings
  and the loaded profile come from outside and are arguments.
\<close>

definition new_UserProfile :: "string \<Rightarrow> UserProfile" where
  "new_UserProfile n =
     \<lparr>name = n, sensitivity = 1.0, smoothing = 0.15, blink_threshold = BLINK_SENSITIVITY,
      mouth_threshold = MOUTH_SENSITIVITY, region_bounds = None, calibration_data = None\<rparr>"

definition new_FaceTracker :: "int \<times> int \<Rightarrow> real \<Rightarrow> UserProfile \<Rightarrow> FaceTracker" where
  "new_FaceTracker screen now prof =
     \<lparr>velocity = (0, 0), screen_w = fst screen, screen_h = snd screen, is_calibrated = False,
      calibration_points = [], reference_point = None, last_update = now,
      gesture_detector = new_GestureDetector now now, is_paused = False, is_tracking = True,
      current_profile = prof, last_click_time = now\<rparr>"

definition toggle_tracking :: "FaceTracker \<Rightarrow> bool \<times> FaceTracker" where
  "toggle_tracking s =
     (let s1 = s\<lparr>is_tracking := \<not> is_tracking s\<rparr>;
          s2 = (if \<not> is_tracking s1
                then s1\<lparr>is_calibrated := False, calibration_points := []\<rparr>
                else s1)
      in (is_tracking s2, s2))"

definition toggle_pause :: "FaceTracker \<Rightarrow> bool \<times> FaceTracker" where
  "toggle_pause s = (let s1 = s\<lparr>is_paused := \<not> is_paused s\<rparr> in (is_paused s1, s1))"

section \<open>Calibration\<close>

text \<open>
  \<open>calibrate\<close> computes with NumPy on 64-bit floats.  The four operations it uses are
  library code and round their results, so they are parameters of the model: the mean and
  the population standard deviation of a column, and the elementwise difference and
  product.  Every statement about \<open>calibrate\<close> below holds for whatever these operations
  return.
\<close>

record numpy =
  np_mean :: "real list \<Rightarrow> real"
  np_std :: "real list \<Rightarrow> real"
  np_subtract :: "real \<Rightarrow> real \<Rightarrow> real"
  np_multiply :: "real \<Rightarrow> real \<Rightarrow> real"

text \<open>
  The same operations without rounding: \<open>exact_numpy\<close> is used for concrete inputs on
  which the floating-point results are exact or far from the boundary of every comparison.
\<close>

definition mean :: "real list \<Rightarrow> real" where
  "mean xs = sum_list xs / real (length xs)"

definition std :: "real list \<Rightarrow> real" where
  "std xs = sqrt (mean (map (\<lambda>x. (\<bar>x - mean xs\<bar>)\<^sup>2) xs))"

definition exact_numpy :: numpy where
  "exact_numpy = \<lparr>np_mean = mean, np_std = std, np_subtract = (-), np_multiply = (*)\<rparr>"

text \<open>
  The rows kept by \<open>points[np.all(np.abs(points - mean) < 2 * std, axis=1)]\<close>, with
  \<open>mean = np.mean(points, axis=0)\<close> and \<open>std = np.std(points, axis=0)\<close>.
\<close>

definition good_points :: "numpy \<Rightarrow> (real \<times> real) list \<Rightarrow> (real \<times> real) list" where
  "good_points np points =
     (let mx = np_mean np (map fst points); my = np_mean np (map snd points);
          sx = np_std np (map fst points); sy = np_std np (map snd points)
      in filter (\<lambda>p. \<bar>np_subtract np (fst p) mx\<bar> < np_multiply np 2 sx
                    \<and> \<bar>np_subtract np (snd p) my\<bar> < np_multiply np 2 sy) points)"

definition calibrate :: "numpy \<Rightarrow> FaceTracker \<Rightarrow> real \<times> real \<Rightarrow> bool \<times> FaceTracker" where
  "calibrate np s face_point =
     (if length (calibration_points s) < CALIBRATION_FRAMES
      then (False, s\<lparr>calibration_points := calibration_points s @ [face_point]\<rparr>)
      else
        (let good = good_points np (calibration_points s) in
         if real (length good) \<ge> real CALIBRATION_FRAMES * CALIBRATION_THRESHOLD
         then (True, s\<lparr>reference_point := Some (np_mean np (map fst good), np_mean np (map snd good)),
                        is_calibrated := True,
                        velocity := (0, 0)\<rparr>)
         else (False, s\<lparr>calibration_points := []\<rparr>)))"

text \<open>
  The calls \<open>process_frame\<close> makes on consecutive frames while the tracker is not
  calibrated: \<open>calibrate_frames np s ps\<close> feeds the points \<open>ps\<close> in order.
\<close>

fun calibrate_frames :: "numpy \<Rightarrow> FaceTracker \<Rightarrow> (real \<times> real) list \<Rightarrow> FaceTracker" where
  "calibrate_frames np s [] = s"
| "calibrate_frames np s (p # ps) = calibrate_frames np (snd (calibrate np s p)) ps"

section \<open>Position update\<close>

text \<open>\<open>np.clip(x, a_min, a_max)\<close> is \<open>minimum(a_max, maximum(x, a_min))\<close>.\<close>

definition np_clip :: "real \<Rightarrow> real \<Rightarrow> real \<Rightarrow> real" where
  "np_clip x a_min a_max = min a_max (max x a_min)"

text \<open>\<open>astype(int)\<close> truncates towards zero.\<close>

definition astype_int :: "real \<Rightarrow> int" where
  "astype_int x = (if x \<ge> 0 then \<lfloor>x\<rfloor> else \<lceil>x\<rceil>)"

text \<open>\<open>np.sign(d) * np.power(np.abs(d), 1.5)\<close> on one axis.\<close>

definition expand :: "real \<Rightarrow> real" where
  "expand d = sgn d * (\<bar>d\<bar> powr 1.5)"

text \<open>
  \<open>update_position\<close>: \<open>now\<close> is the clock reading \<open>time.time()\<close> and \<open>cur\<close> the pointer
  position \<open>pyautogui.position()\<close>.  A missing reference point makes the subtraction
  raise after \<open>last_update\<close> is written; the handler returns \<open>None\<close>.
\<close>

definition update_position ::
  "FaceTracker \<Rightarrow> real \<times> real \<Rightarrow> real \<Rightarrow> int \<times> int \<Rightarrow> (int \<times> int) option \<times> FaceTracker" where
  "update_position s face_point now cur =
     (if \<not> is_calibrated s \<or> \<not> is_tracking s then (None, s)
      else
        (let dt = now - last_update s;
             s1 = s\<lparr>last_update := now\<rparr>
         in case reference_point s1 of
              None \<Rightarrow> (None, s1)
            | Some r \<Rightarrow>
               (let dx = expand (fst face_point - fst r);
                    dy = expand (snd face_point - snd r);
                    tx = dx * MOUSE_SPEED;
                    ty = dy * MOUSE_SPEED;
                    vx = fst (velocity s1) * SMOOTH_FACTOR + tx * (1 - SMOOTH_FACTOR);
                    vy = snd (velocity s1) * SMOOTH_FACTOR + ty * (1 - SMOOTH_FACTOR);
                    speed = sqrt (vx\<^sup>2 + vy\<^sup>2);
                    k = (if speed > MOVEMENT_THRESHOLD then ACCELERATION_FACTOR
                         else DECELERATION_FACTOR);
                    v = (vx * k, vy * k);
                    nx = real_of_int (fst cur) + fst v * dt;
                    ny = real_of_int (snd cur) + snd v * dt;
                    cx = np_clip nx (real_of_int SCREEN_PADDING)
                           (real_of_int (screen_w s1 - SCREEN_PADDING));
                    cy = np_clip ny (real_of_int SCREEN_PADDING)
                           (real_of_int (screen_h s1 - SCREEN_PADDING))
                in (Some (astype_int cx, astype_int cy), s1\<lparr>velocity := v\<rparr>))))"

text \<open>
  A target inside the padded screen: both coordinates within
  \<open>[SCREEN_PADDING, screen dimension - SCREEN_PADDING]\<close>.
\<close>

definition padded :: "FaceTracker \<Rightarrow> real \<times> real \<Rightarrow> bool" where
  "padded s t =
     (real_of_int SCREEN_PADDING \<le> fst t \<and> fst t \<le> real_of_int (screen_w s - SCREEN_PADDING)
      \<and> real_of_int SCREEN_PADDING \<le> snd t \<and> snd t \<le> real_of_int (screen_h s - SCREEN_PADDING))"

section \<open>Clicks and the frame step\<close>

datatype effect =
    MoveTo real real
  | Click string
  | SaveProfile UserProfile

definition handle_click :: "FaceTracker \<Rightarrow> string \<Rightarrow> real \<Rightarrow> effect list \<times> FaceTracker" where
  "handle_click s click_type now =
     (if now - last_click_time s \<ge> CLICK_COOLDOWN
      then ([Click (if click_type = ''right'' then ''right'' else ''left'')],
            s\<lparr>last_click_time := now\<rparr>)
      else ([], s))"

text \<open>
  Lines 529 to 537 of \<open>process_frame\<close>: the pointer move of a calibrated frame, with the
  region lock of the active profile applied after \<open>update_position\<close>.
\<close>

definition move_step ::
  "FaceTracker \<Rightarrow> real \<times> real \<Rightarrow> real \<Rightarrow> int \<times> int \<Rightarrow> (real \<times> real) option \<times> FaceTracker" where
  "move_step s nose_point now cur =
     (case update_position s nose_point now cur of
        (None, s1) \<Rightarrow> (None, s1)
      | (Some new_pos, s1) \<Rightarrow>
          (if is_paused s1 then (None, s1)
           else
             (case region_bounds (current_profile s1) of
                None \<Rightarrow> (Some (real_of_int (fst new_pos), real_of_int (snd new_pos)), s1)
              | Some (x1, y1, x2, y2) \<Rightarrow>
                  (Some (np_clip (real_of_int (fst new_pos)) x1 x2,
                         np_clip (real_of_int (snd new_pos)) y1 y2), s1))))"

text \<open>
  The clock is read once in each callee; \<open>frame_clock\<close> holds the readings of one frame
  in the order of the calls.
\<close>

record frame_clock =
  t_position :: real
  t_blink :: real
  t_right_click :: real
  t_mouth :: real
  t_left_click :: real

text \<open>
  \<open>process_frame\<close>: \<open>faces\<close> is the landmark set of the first detected face, or \<open>None\<close>
  when no face is found.  The result is the returned flag, the effects in the order they
  are issued, and the tracker afterwards.  A raise of \<open>landmarks.part(30)\<close> is caught by
  the handler, which returns \<open>False\<close>.  The operations \<open>np\<close> are those used by
  \<open>calibrate\<close>.
\<close>

definition process_frame ::
  "numpy \<Rightarrow> FaceTracker \<Rightarrow> landmarks option \<Rightarrow> frame_clock \<Rightarrow> int \<times> int
     \<Rightarrow> bool \<times> effect list \<times> FaceTracker" where
  "process_frame np s faces clk cur =
     (if \<not> is_tracking s then (True, [], s)
      else if is_paused s then (True, [], s)
      else
        (case faces of
           None \<Rightarrow> (False, [], s)
         | Some lm \<Rightarrow>
            (case part lm 30 of
               None \<Rightarrow> (False, [], s)
             | Some n \<Rightarrow>
                (let nose_point = (real_of_int (fst n), real_of_int (snd n)) in
                 if \<not> is_calibrated s then
                   (case calibrate np s nose_point of
                      (True, s1) \<Rightarrow>
                        (let prof = (current_profile s1)\<lparr>calibration_data := reference_point s1\<rparr>
                         in (True, [SaveProfile prof], s1\<lparr>current_profile := prof\<rparr>))
                    | (False, s1) \<Rightarrow> (True, [], s1))
                 else
                   (let (mv, s1) = move_step s nose_point (t_position clk) cur;
                        e1 = (case mv of None \<Rightarrow> [] | Some (x, y) \<Rightarrow> [MoveTo x y]);
                        (b, g1) = detect_blink (gesture_detector s1) lm
                                    (blink_threshold (current_profile s1)) (t_blink clk);
                        s2 = s1\<lparr>gesture_detector := g1\<rparr>;
                        (e2, s3) = (if b then handle_click s2 ''right'' (t_right_click clk)
                                    else ([], s2));
                        (m, g2) = detect_mouth_open (gesture_detector s3) lm
                                    (mouth_threshold (current_profile s3)) (t_mouth clk);
                        s4 = s3\<lparr>gesture_detector := g2\<rparr>;
                        (e3, s5) = (if m then handle_click s4 ''left'' (t_left_click clk)
                                    else ([], s4))
                    in (True, e1 @ e2 @ e3, s5))))))"

section \<open>Settings update\<close>

text \<open>
  A value of the settings payload under one of the four numeric keys, as Python's
  \<open>float()\<close> treats it: \<open>Floatable r\<close> is a value that \<open>float()\<close> converts to \<open>r\<close> (a number,
  a numeric string), \<open>NotFloatable msg\<close> one on which it raises with message \<open>msg\<close>.
\<close>

datatype payload_value = Floatable real | NotFloatable string

definition py_float :: "payload_value \<Rightarrow> string + real" where
  "py_float v = (case v of Floatable r \<Rightarrow> Inr r | NotFloatable msg \<Rightarrow> Inl msg)"

text \<open>
  The payload dictionary: a key that is absent is \<open>None\<close>.  Other keys are ignored by
  \<open>update_settings\<close>.
\<close>

record settings =
  set_sensitivity :: "payload_value option"
  set_smoothing :: "payload_value option"
  set_blink_threshold :: "payload_value option"
  set_mouth_threshold :: "payload_value option"
  set_region_bounds :: "rect option option"

text \<open>
  One statement \<open>if key in settings: profile.field = float(settings[key])\<close>: \<open>Inl\<close> carries
  the message of the raise and the profile as it is at that point.
\<close>

definition assign_float ::
  "payload_value option \<Rightarrow> (real \<Rightarrow> UserProfile \<Rightarrow> UserProfile) \<Rightarrow> UserProfile
     \<Rightarrow> (string \<times> UserProfile) + UserProfile" where
  "assign_float entry upd p =
     (case entry of
        None \<Rightarrow> Inr p
      | Some v \<Rightarrow> (case py_float v of Inl e \<Rightarrow> Inl (e, p) | Inr r \<Rightarrow> Inr (upd r p)))"

text \<open>
  A payload entry on which \<open>float()\<close> raises, and the value a numeric field holds once its
  statement has run without raising.
\<close>

definition raises :: "payload_value option \<Rightarrow> bool" where
  "raises entry = (case entry of Some (NotFloatable msg) \<Rightarrow> True | _ \<Rightarrow> False)"

definition assigned :: "payload_value option \<Rightarrow> real \<Rightarrow> real" where
  "assigned entry old = (case entry of Some (Floatable r) \<Rightarrow> r | _ \<Rightarrow> old)"

text \<open>
  \<open>update_settings\<close> assigns field after field; a raise of \<open>float()\<close> leaves the method at
  that point, with the earlier assignments done.  On success the profile is saved.
\<close>

definition update_settings :: "FaceTracker \<Rightarrow> settings \<Rightarrow> (string + unit) \<times> effect list \<times> FaceTracker" where
  "update_settings s st =
     (case assign_float (set_sensitivity st) (\<lambda>r p. p\<lparr>sensitivity := r\<rparr>) (current_profile s) of
        Inl (e, p) \<Rightarrow> (Inl e, [], s\<lparr>current_profile := p\<rparr>)
      | Inr p1 \<Rightarrow>
     (case assign_float (set_smoothing st) (\<lambda>r p. p\<lparr>smoothing := r\<rparr>) p1 of
        Inl (e, p) \<Rightarrow> (Inl e, [], s\<lparr>current_profile := p\<rparr>)
      | Inr p2 \<Rightarrow>
     (case assign_float (set_blink_threshold st) (\<lambda>r p. p\<lparr>blink_threshold := r\<rparr>) p2 of
        Inl (e, p) \<Rightarrow> (Inl e, [], s\<lparr>current_profile := p\<rparr>)
      | Inr p3 \<Rightarrow>
     (case assign_float (set_mouth_threshold st) (\<lambda>r p. p\<lparr>mouth_threshold := r\<rparr>) p3 of
        Inl (e, p) \<Rightarrow> (Inl e, [], s\<lparr>current_profile := p\<rparr>)
      | Inr p4 \<Rightarrow>
        (let p5 = (case set_region_bounds st of None \<Rightarrow> p4
                   | Some rb \<Rightarrow> p4\<lparr>region_bounds := rb\<rparr>)
         in (Inr (), [SaveProfile p5], s\<lparr>current_profile := p5\<rparr>))))))"

datatype reply = StatusSuccess | StatusError string

definition handle_settings_update :: "FaceTracker \<Rightarrow> settings \<Rightarrow> reply \<times> effect list \<times> FaceTracker" where
  "handle_settings_update s st =
     (case update_settings s st of
        (Inr u, es, s1) \<Rightarrow> (StatusSuccess, es, s1)
      | (Inl e, es, s1) \<Rightarrow> (StatusError e, es, s1))"

section \<open>Concrete states\<close>

text \<open>
  States used as concrete inputs below.  \<open>calibrated_tracker\<close> is a fresh tracker on a
  1920 by 1080 screen with the default profile, after a calibration with reference point
  \<open>(100, 100)\<close>; \<open>region_tracker\<close> and \<open>locked_tracker\<close> have the regions
  \<open>[0, 0, 10, 10]\<close> and \<open>[400, 300, 600, 450]\<close> in their profiles in addition;
  \<open>clock_at t\<close> is a frame all of whose clock readings are \<open>t\<close>.
\<close>

definition calibrated_tracker :: FaceTracker where
  "calibrated_tracker =
     (new_FaceTracker (1920, 1080) 0 (new_UserProfile ''default''))
       \<lparr>is_calibrated := True, reference_point := Some (100, 100)\<rparr>"

definition region_tracker :: FaceTracker where
  "region_tracker =
     calibrated_tracker
       \<lparr>current_profile := (new_UserProfile ''default'')\<lparr>region_bounds := Some (0, 0, 10, 10)\<rparr>\<rparr>"

definition locked_tracker :: FaceTracker where
  "locked_tracker =
     calibrated_tracker
       \<lparr>current_profile := (new_UserProfile ''default'')\<lparr>region_bounds := Some (400, 300, 600, 450)\<rparr>\<rparr>"

text \<open>
  A full calibration buffer of a steady head, one pixel of jitter on both axes, and a
  settings payload whose sensitivity is a number and whose smoothing is not.
\<close>

definition steady_buffer :: "(real \<times> real) list" where
  "steady_buffer = replicate 7 (99, 99) @ replicate 7 (101, 101) @ [(100, 100)]"

definition mixed_settings :: settings where
  "mixed_settings =
     \<lparr>set_sensitivity = Some (Floatable 2),
      set_smoothing = Some (NotFloatable ''could not convert string to float''),
      set_blink_threshold = None, set_mouth_threshold = None, set_region_bounds = None\<rparr>"

definition clock_at :: "real \<Rightarrow> frame_clock" where
  "clock_at t = \<lparr>t_position = t, t_blink = t, t_right_click = t, t_mouth = t, t_left_click = t\<rparr>"

section \<open>The zero guard of the eye aspect ratio\<close>

lemma those_map_Some:
  "those (map f xs) = Some ys \<Longrightarrow> length ys = length xs \<and> (\<forall>i < length xs. f (xs ! i) = Some (ys ! i))"
proof (induction xs arbitrary: ys)
  case Nil
  then show ?case by simp
next
  case (Cons x xs)
  then obtain y ys' where fx: "f x = Some y" and r: "those (map f xs) = Some ys'" and ys: "ys = y # ys'"
    by (auto split: option.splits)
  from Cons.IH[OF r] show ?case using fx ys by (auto simp: nth_Cons split: nat.splits)
qed

lemma ratio_guard:
  assumes "eye_aspect_ratio_body lm start stop = Some r"
      and "part lm start = Some p0" and "part lm (start + 3) = Some p3"
      and "norm_diff p0 p3 = 0"
  shows "r = 0"
proof -
  from assms(1) obtain eye_points where
      ep: "those (map (part lm) [start ..< stop + 1]) = Some eye_points"
    by (auto simp: eye_aspect_ratio_body_def split: Option.bind_splits)
  from those_map_Some[OF ep] have len: "length eye_points = stop + 1 - start"
    and nth: "\<And>i. i < stop + 1 - start \<Longrightarrow> part lm (start + i) = Some (eye_points ! i)"
    by (auto simp del: upt_Suc)
  from assms(1) ep obtain q0 q3 where q0: "item eye_points 0 = Some q0" and q3: "item eye_points 3 = Some q3"
    and r: "r = (if norm_diff q0 q3 > 0 then (norm_diff (the (item eye_points 1)) (the (item eye_points 5))
                  + norm_diff (the (item eye_points 2)) (the (item eye_points 4))) / (2 * norm_diff q0 q3) else 0)"
    by (auto simp: eye_aspect_ratio_body_def Let_def split: Option.bind_splits)
  from q3 have l3: "3 < length eye_points" by (auto simp: item_def split: if_splits)
  have "q0 = p0" using q0 nth[of 0] l3 len assms(2) by (auto simp: item_def split: if_splits)
  moreover have "q3 = p3" using q3 nth[of 3] l3 len assms(3) by (auto simp: item_def split: if_splits)
  ultimately show ?thesis using r assms(4) by simp
qed

lemma eye_ratio_degenerate:
  "part lm start = Some p0 \<Longrightarrow> part lm (start + 3) = Some p3 \<Longrightarrow> norm_diff p0 p3 = 0
     \<Longrightarrow> get_eye_aspect_ratio lm start stop = 0"
  by (cases "eye_aspect_ratio_body lm start stop")
     (auto simp: get_eye_aspect_ratio_def dest: ratio_guard)

text \<open>
  Claim C8.  For a landmark set whose eye points \<open>p0\<close> (index \<open>start\<close>) and \<open>p3\<close> (index
  \<open>start + 3\<close>) are at distance zero, \<open>get_eye_aspect_ratio\<close> returns 0: the guard
  \<open>h > 0\<close> keeps the division from being evaluated.
\<close>

theorem ear_zero_horizontal:
  "part lm start = Some p0 \<Longrightarrow> part lm (start + 3) = Some p3 \<Longrightarrow> norm_diff p0 p3 = 0
     \<Longrightarrow> get_eye_aspect_ratio lm start stop = 0"
proof (cases "eye_aspect_ratio_body lm start stop")
  case None
  then show ?thesis by (simp add: get_eye_aspect_ratio_def)
next
  case (Some r)
  assume "part lm start = Some p0" and "part lm (start + 3) = Some p3" and "norm_diff p0 p3 = 0"
  with Some have "r = 0" by (rule ratio_guard)
  with Some show ?thesis by (simp add: get_eye_aspect_ratio_def)
qed

theorem ear_zero_horizontal_witness:
  "get_eye_aspect_ratio closed_eyes 36 41 = 0 \<and> part closed_eyes 36 = part closed_eyes 39"
proof -
  have a: "part closed_eyes 36 = Some (100, 100)" by (simp add: part_def closed_eyes_def)
  have b: "part closed_eyes (36 + 3) = Some (100, 100)" by (simp add: part_def closed_eyes_def)
  have c: "norm_diff (100, 100) (100, 100) = 0" by (simp add: norm_diff_def)
  show ?thesis using ear_zero_horizontal[OF a b c, of 41] a b by simp
qed

section \<open>The blink debounce\<close>

lemma blink_ear_closed: "blink_ear closed_eyes = 0"
proof -
  have c: "norm_diff (100, 100) (100, 100) = 0" by (simp add: norm_diff_def)
  have "get_eye_aspect_ratio closed_eyes 36 41 = 0"
    by (rule eye_ratio_degenerate[OF _ _ c]) (simp_all add: part_def closed_eyes_def)
  moreover have "get_eye_aspect_ratio closed_eyes 42 47 = 0"
    by (rule eye_ratio_degenerate[OF _ _ c]) (simp_all add: part_def closed_eyes_def)
  ultimately show ?thesis by (simp add: blink_ear_def)
qed













section \<open>Pause and tracking toggles\<close>

text \<open>
  Claim C9.  Two calls of \<open>toggle_pause\<close> in succession give back the state they started
  from: velocity, reference point, calibration buffer and both gesture counters are as
  before, and so is every other field.
\<close>

theorem toggle_pause_twice:
  "snd (toggle_pause (snd (toggle_pause s))) = s
   \<and> velocity (snd (toggle_pause (snd (toggle_pause s)))) = velocity s
   \<and> reference_point (snd (toggle_pause (snd (toggle_pause s)))) = reference_point s
   \<and> calibration_points (snd (toggle_pause (snd (toggle_pause s)))) = calibration_points s
   \<and> eye_ar_counter (gesture_detector (snd (toggle_pause (snd (toggle_pause s)))))
       = eye_ar_counter (gesture_detector s)
   \<and> mouth_ar_counter (gesture_detector (snd (toggle_pause (snd (toggle_pause s)))))
       = mouth_ar_counter (gesture_detector s)
   \<and> fst (toggle_pause s) = (\<not> is_paused s)
   \<and> fst (toggle_pause (snd (toggle_pause s))) = is_paused s"
proof -
  have "snd (toggle_pause (snd (toggle_pause s))) = s"
    by (simp add: toggle_pause_def Let_def)
  then show ?thesis by (simp add: toggle_pause_def Let_def)
qed

lemma update_position_gate:
  "\<not> is_calibrated s \<or> \<not> is_tracking s \<Longrightarrow> update_position s p now cur = (None, s)"
  by (auto simp: update_position_def)

lemma update_position_frame:
  "current_profile (snd (update_position s p now cur)) = current_profile s"
  "is_paused (snd (update_position s p now cur)) = is_paused s"
  "screen_w (snd (update_position s p now cur)) = screen_w s"
  "screen_h (snd (update_position s p now cur)) = screen_h s"
  by (auto simp: update_position_def Let_def split: option.splits)

lemma update_position_ignores_pause:
  "fst (update_position (s\<lparr>is_paused := b\<rparr>) p now cur) = fst (update_position s p now cur)"
  by (auto simp: update_position_def Let_def split: option.splits)

text \<open>
  Claim C6, as stated, fails: \<open>toggle_tracking\<close> never writes \<open>reference_point\<close>.  Leaving
  the tracking state of a calibrated tracker keeps the reference point \<open>(100, 100)\<close>.
\<close>

theorem toggle_tracking_keeps_reference:
  "is_tracking calibrated_tracker
   \<and> reference_point (snd (toggle_tracking calibrated_tracker)) = Some (100, 100)
   \<and> reference_point (snd (toggle_tracking calibrated_tracker)) \<noteq> None"
  by (simp add: toggle_tracking_def calibrated_tracker_def new_FaceTracker_def Let_def)

text \<open>
  Claim C6, amended.  Called with tracking on, \<open>toggle_tracking\<close> turns tracking off,
  clears the flag \<open>is_calibrated\<close> and empties the calibration buffer; the stored
  reference point keeps its value.  \<open>update_position\<close> returns no target afterwards, and
  after the next \<open>toggle_tracking\<close> the tracker is tracking again, still not calibrated
  and with an empty buffer, so no target is returned before a new calibration.
\<close>

theorem toggle_tracking_invalidates:
  assumes "is_tracking s"
  shows "fst (toggle_tracking s) = False
     \<and> \<not> is_tracking (snd (toggle_tracking s))
     \<and> \<not> is_calibrated (snd (toggle_tracking s))
     \<and> calibration_points (snd (toggle_tracking s)) = []
     \<and> reference_point (snd (toggle_tracking s)) = reference_point s
     \<and> fst (update_position (snd (toggle_tracking s)) p now cur) = None
     \<and> is_tracking (snd (toggle_tracking (snd (toggle_tracking s))))
     \<and> \<not> is_calibrated (snd (toggle_tracking (snd (toggle_tracking s))))
     \<and> calibration_points (snd (toggle_tracking (snd (toggle_tracking s)))) = []
     \<and> fst (update_position (snd (toggle_tracking (snd (toggle_tracking s)))) p now cur) = None"
proof -
  let ?s1 = "snd (toggle_tracking s)"
  let ?s2 = "snd (toggle_tracking ?s1)"
  have off: "\<not> is_tracking ?s1" "\<not> is_calibrated ?s1" "calibration_points ?s1 = []"
       "reference_point ?s1 = reference_point s" "fst (toggle_tracking s) = False"
    using assms by (simp_all add: toggle_tracking_def Let_def)
  have on: "is_tracking ?s2" "\<not> is_calibrated ?s2" "calibration_points ?s2 = []"
    using off by (simp_all add: toggle_tracking_def Let_def)
  have "update_position ?s1 p now cur = (None, ?s1)"
    by (rule update_position_gate) (simp add: off)
  moreover have "update_position ?s2 p now cur = (None, ?s2)"
    by (rule update_position_gate) (simp add: on)
  ultimately show ?thesis using off on by simp
qed

theorem toggle_tracking_invalidates_witness:
  "is_tracking calibrated_tracker
   \<and> \<not> is_calibrated (snd (toggle_tracking calibrated_tracker))
   \<and> calibration_points (snd (toggle_tracking calibrated_tracker)) = []
   \<and> fst (update_position (snd (toggle_tracking (snd (toggle_tracking calibrated_tracker))))
            (120, 100) 1 (500, 500)) = None"
proof -
  have t: "is_tracking calibrated_tracker"
    by (simp add: calibrated_tracker_def new_FaceTracker_def)
  show ?thesis
    using toggle_tracking_invalidates[OF t, of "(120, 100)" 1 "(500, 500)"] t by simp
qed

section \<open>The gates of the position update\<close>

lemma move_step_paused: "is_paused s \<Longrightarrow> fst (move_step s p now cur) = None"
proof -
  assume ps: "is_paused s"
  obtain r s1 where u: "update_position s p now cur = (r, s1)" by (cases "update_position s p now cur")
  then have "is_paused s1" using update_position_frame(2)[of s p now cur] ps by simp
  then show ?thesis using u by (cases r) (simp_all add: move_step_def)
qed

lemma expand_0: "expand 0 = 0" by (simp add: expand_def)

lemma update_position_at_reference:
  "update_position (calibrated_tracker\<lparr>is_paused := b\<rparr>) (100, 100) 1 (500, 500)
     = (Some (500, 500), calibrated_tracker\<lparr>is_paused := b, last_update := 1, velocity := (0, 0)\<rparr>)"
  by (simp add: update_position_def calibrated_tracker_def new_FaceTracker_def Let_def expand_0
      np_clip_def astype_int_def SCREEN_PADDING_def DECELERATION_FACTOR_def MOVEMENT_THRESHOLD_def)

text \<open>
  Claim C5, as stated, fails: \<open>update_position\<close> does not read \<open>is_paused\<close>.  A paused
  tracker that is calibrated and tracking gets the target \<open>(500, 500)\<close>.
\<close>

theorem update_position_while_paused:
  "is_paused (calibrated_tracker\<lparr>is_paused := True\<rparr>)
   \<and> fst (update_position (calibrated_tracker\<lparr>is_paused := True\<rparr>) (100, 100) 1 (500, 500))
       = Some (500, 500)"
  by (simp add: update_position_at_reference)

text \<open>
  Claim C5, amended.  \<open>update_position\<close> returns no target, and leaves the tracker as it
  is, whenever the tracker is not calibrated or not tracking.  Its result does not depend
  on \<open>is_paused\<close>: the pause is enforced by the caller.  On a paused tracker the move
  step of \<open>process_frame\<close> yields no target and \<open>process_frame\<close> itself returns before
  any update, with no effect issued.
\<close>

theorem update_position_silent:
  "(\<not> is_calibrated s \<or> \<not> is_tracking s \<longrightarrow> update_position s p now cur = (None, s))
   \<and> fst (update_position (s\<lparr>is_paused := True\<rparr>) p now cur) = fst (update_position s p now cur)
   \<and> (is_paused s \<longrightarrow> fst (move_step s p now cur) = None
                       \<and> process_frame np s faces clk cur = (True, [], s))"
  using update_position_gate[of s p now cur] update_position_ignores_pause[where s = s and b = True and p = p and now = now and cur = cur]
    move_step_paused[of s p now cur]
  by (simp add: process_frame_def)

theorem update_position_silent_witness:
  "update_position (new_FaceTracker (1920, 1080) 0 (new_UserProfile ''default'')) (100, 100) 1 (500, 500)
     = (None, new_FaceTracker (1920, 1080) 0 (new_UserProfile ''default''))
   \<and> process_frame exact_numpy (calibrated_tracker\<lparr>is_paused := True\<rparr>)
         (Some closed_eyes) (clock_at 1) (500, 500)
     = (True, [], calibrated_tracker\<lparr>is_paused := True\<rparr>)"
  using update_position_silent[where s = "new_FaceTracker (1920, 1080) 0 (new_UserProfile ''default'')"
          and p = "(100, 100)" and now = 1 and cur = "(500, 500)" and np = exact_numpy
          and faces = "Some closed_eyes" and clk = "clock_at 1"]
        update_position_silent[where s = "calibrated_tracker\<lparr>is_paused := True\<rparr>"
          and p = "(100, 100)" and now = 1 and cur = "(500, 500)" and np = exact_numpy
          and faces = "Some closed_eyes" and clk = "clock_at 1"]
  by (simp add: new_FaceTracker_def)

section \<open>Clamping of the cursor target\<close>

lemma np_clip_between:
  "a_min \<le> a_max \<Longrightarrow> a_min \<le> np_clip x a_min a_max \<and> np_clip x a_min a_max \<le> a_max"
  by (simp add: np_clip_def)

lemma np_clip_stays:
  "lo \<le> x \<Longrightarrow> x \<le> hi \<Longrightarrow> a_min \<le> hi \<Longrightarrow> lo \<le> a_max
     \<Longrightarrow> lo \<le> np_clip x a_min a_max \<and> np_clip x a_min a_max \<le> hi"
  by (auto simp: np_clip_def min_def max_def)

lemma astype_int_between:
  assumes "real_of_int lo \<le> x" and "x \<le> real_of_int hi"
  shows "lo \<le> astype_int x \<and> astype_int x \<le> hi"
proof (cases "0 \<le> x")
  case True
  then show ?thesis using assms by (simp add: astype_int_def le_floor_iff floor_le_iff)
next
  case False
  then show ?thesis using assms by (simp add: astype_int_def ceiling_le_iff le_ceiling_iff)
qed

lemma update_position_padded:
  assumes w: "2 * SCREEN_PADDING \<le> screen_w s" and h: "2 * SCREEN_PADDING \<le> screen_h s"
      and r: "fst (update_position s p now cur) = Some (x, y)"
  shows "SCREEN_PADDING \<le> x \<and> x \<le> screen_w s - SCREEN_PADDING
         \<and> SCREEN_PADDING \<le> y \<and> y \<le> screen_h s - SCREEN_PADDING"
proof -
  from r obtain nx ny where
      x: "x = astype_int (np_clip nx (real_of_int SCREEN_PADDING) (real_of_int (screen_w s - SCREEN_PADDING)))"
  and y: "y = astype_int (np_clip ny (real_of_int SCREEN_PADDING) (real_of_int (screen_h s - SCREEN_PADDING)))"
    by (auto simp: update_position_def Let_def split: if_splits option.splits)
  have "real_of_int SCREEN_PADDING \<le> real_of_int (screen_w s - SCREEN_PADDING)"
       "real_of_int SCREEN_PADDING \<le> real_of_int (screen_h s - SCREEN_PADDING)"
    using w h by simp_all
  from np_clip_between[OF this(1)] np_clip_between[OF this(2)] show ?thesis
    unfolding x y by (meson astype_int_between)
qed

lemma process_frame_move:
  assumes "MoveTo mx my \<in> set (fst (snd (process_frame np s faces clk cur)))"
  shows "\<exists>n. fst (move_step s n (t_position clk) cur) = Some (mx, my)"
  using assms
  by (auto simp: process_frame_def Let_def handle_click_def case_prod_unfold
           split: if_splits option.splits bool.splits)

lemma move_step_target:
  assumes "fst (move_step s n now cur) = Some (mx, my)"
  shows "\<exists>x y. fst (update_position s n now cur) = Some (x, y)
           \<and> (case region_bounds (current_profile s) of
                 None \<Rightarrow> mx = real_of_int x \<and> my = real_of_int y
               | Some (x1, y1, x2, y2) \<Rightarrow>
                   mx = np_clip (real_of_int x) x1 x2 \<and> my = np_clip (real_of_int y) y1 y2)"
proof -
  obtain r s1 where u: "update_position s n now cur = (r, s1)" by (cases "update_position s n now cur")
  have prof: "current_profile s1 = current_profile s"
    using update_position_frame(1)[of s n now cur] u by simp
  from assms u obtain x y where r: "r = Some (x, y)"
    by (cases r) (auto simp: move_step_def)
  show ?thesis
    using assms u r prof
    by (auto simp: move_step_def split: if_splits option.splits)
qed

lemma mouth_ratio_closed: "get_mouth_aspect_ratio closed_eyes = 0"
proof -
  have m: "map (part closed_eyes) [60 ..< 68] = map Some (replicate 8 (100, 100))"
    by (simp add: part_def closed_eyes_def upt_rec numeral_eq_Suc)
  show ?thesis
    unfolding get_mouth_aspect_ratio_def mouth_aspect_ratio_body_def m
    by (simp add: item_def norm_diff_def numeral_eq_Suc)
qed

lemma closed_frame_no_gesture:
  "fst (detect_blink g closed_eyes BLINK_SENSITIVITY t) = False"
  "gesture_detector (s\<lparr>gesture_detector := snd (detect_blink g closed_eyes BLINK_SENSITIVITY t)\<rparr>)
     = g\<lparr>eye_ar_counter := eye_ar_counter g + 1\<rparr>"
  "mouth_ar_counter g = 0 \<Longrightarrow> fst (detect_mouth_open g closed_eyes MOUTH_SENSITIVITY t) = False"
  by (simp_all add: detect_blink_def blink_ear_closed BLINK_SENSITIVITY_def
        detect_mouth_open_def mouth_ratio_closed MOUTH_SENSITIVITY_def MOUTH_AR_CONSEC_FRAMES_def)

text \<open>
  A frame of \<open>closed_eyes\<close>, whose nose point is the reference point, on a calibrated
  tracker with any profile \<open>prof\<close> of default thresholds: the velocity is zero and the
  pointer stays at \<open>(500, 500)\<close> before the region lock.
\<close>

lemma update_position_profile:
  "update_position (calibrated_tracker\<lparr>current_profile := prof\<rparr>) (100, 100) 1 (500, 500)
     = (Some (500, 500),
        calibrated_tracker\<lparr>current_profile := prof, last_update := 1, velocity := (0, 0)\<rparr>)"
  by (simp add: update_position_def calibrated_tracker_def new_FaceTracker_def
      Let_def expand_0 np_clip_def astype_int_def SCREEN_PADDING_def DECELERATION_FACTOR_def
      MOVEMENT_THRESHOLD_def)

lemma process_frame_still:
  assumes "blink_threshold prof = BLINK_SENSITIVITY" and "mouth_threshold prof = MOUTH_SENSITIVITY"
  shows "fst (snd (process_frame np (calibrated_tracker\<lparr>current_profile := prof\<rparr>)
                    (Some closed_eyes) (clock_at 1) (500, 500)))
     = (case region_bounds prof of
          None \<Rightarrow> [MoveTo 500 500]
        | Some (x1, y1, x2, y2) \<Rightarrow> [MoveTo (np_clip 500 x1 x2) (np_clip 500 y1 y2)])"
proof -
  let ?s = "calibrated_tracker\<lparr>current_profile := prof\<rparr>"
  let ?s1 = "calibrated_tracker\<lparr>current_profile := prof, last_update := 1, velocity := (0, 0)\<rparr>"
  have n: "part closed_eyes 30 = Some (100, 100)" by (simp add: part_def closed_eyes_def)
  have g: "is_tracking ?s" "\<not> is_paused ?s" "is_calibrated ?s"
    by (simp_all add: calibrated_tracker_def new_FaceTracker_def)
  have g1: "\<not> is_paused ?s1" "current_profile ?s1 = prof"
    by (simp_all add: calibrated_tracker_def new_FaceTracker_def)
  have mc: "mouth_ar_counter (gesture_detector ?s1) = 0"
    by (simp add: calibrated_tracker_def new_FaceTracker_def new_GestureDetector_def)
  have ms: "move_step ?s (100, 100) 1 (500, 500)
     = (case region_bounds prof of
          None \<Rightarrow> Some (500, 500)
        | Some (x1, y1, x2, y2) \<Rightarrow> Some (np_clip 500 x1 x2, np_clip 500 y1 y2), ?s1)"
    using g1 by (simp add: move_step_def update_position_profile split: option.splits)
  show ?thesis
    using n g g1 mc assms
    by (simp add: process_frame_def clock_at_def Let_def case_prod_unfold ms closed_frame_no_gesture
          split: option.splits)
qed

text \<open>
  Claim C2, as stated, fails when the region does not meet the padded screen.  With the
  region \<open>[0, 0, 10, 10]\<close> on a 1920 by 1080 screen, \<open>update_position\<close> returns
  \<open>(500, 500)\<close>, which is outside the region, and the target that \<open>process_frame\<close> then
  moves to is \<open>(10, 10)\<close>, which is outside the padded screen: the region clamp is applied
  last and alone decides.
\<close>

theorem region_target_outside_padding:
  "region_bounds (current_profile region_tracker) = Some (0, 0, 10, 10)
   \<and> fst (update_position region_tracker (100, 100) 1 (500, 500)) = Some (500, 500)
   \<and> fst (snd (process_frame exact_numpy region_tracker (Some closed_eyes) (clock_at 1) (500, 500)))
       = [MoveTo 10 10]
   \<and> \<not> padded region_tracker (10, 10)
   \<and> \<not> (500::real) \<le> 10"
proof -
  have e: "fst (snd (process_frame exact_numpy region_tracker (Some closed_eyes) (clock_at 1) (500, 500)))
       = [MoveTo 10 10]"
    unfolding region_tracker_def
    by (subst process_frame_still) (simp_all add: new_UserProfile_def np_clip_def)
  have u: "fst (update_position region_tracker (100, 100) 1 (500, 500)) = Some (500, 500)"
    unfolding region_tracker_def by (simp add: update_position_profile)
  show ?thesis
    using e u by (simp add: padded_def SCREEN_PADDING_def) (simp add: region_tracker_def)
qed

text \<open>
  Claim C2, amended.  On a screen of at least \<open>2 * SCREEN_PADDING\<close> in each dimension,
  every target returned by \<open>update_position\<close> has both coordinates within
  \<open>[SCREEN_PADDING, screen dimension - SCREEN_PADDING]\<close>.  A target that \<open>process_frame\<close>
  moves to lies in the padded screen when the profile has no region; with a region
  \<open>[x1, y1, x2, y2]\<close> it lies within the region on each axis whose bounds are ordered,
  and it lies in the padded screen as well when the region reaches into the padded screen
  on both axes.
\<close>

theorem cursor_target_clamped:
  assumes w: "2 * SCREEN_PADDING \<le> screen_w s" and h: "2 * SCREEN_PADDING \<le> screen_h s"
  shows "(fst (update_position s p now cur) = Some (x, y) \<longrightarrow>
            SCREEN_PADDING \<le> x \<and> x \<le> screen_w s - SCREEN_PADDING
            \<and> SCREEN_PADDING \<le> y \<and> y \<le> screen_h s - SCREEN_PADDING)
       \<and> (MoveTo mx my \<in> set (fst (snd (process_frame np s faces clk cur))) \<longrightarrow>
            (region_bounds (current_profile s) = None \<longrightarrow> padded s (mx, my))
            \<and> (region_bounds (current_profile s) = Some (x1, y1, x2, y2) \<longrightarrow>
                 (x1 \<le> x2 \<longrightarrow> x1 \<le> mx \<and> mx \<le> x2)
                 \<and> (y1 \<le> y2 \<longrightarrow> y1 \<le> my \<and> my \<le> y2)
                 \<and> (x1 \<le> real_of_int (screen_w s - SCREEN_PADDING) \<and> real_of_int SCREEN_PADDING \<le> x2
                      \<and> y1 \<le> real_of_int (screen_h s - SCREEN_PADDING) \<and> real_of_int SCREEN_PADDING \<le> y2
                      \<longrightarrow> padded s (mx, my))))"
proof (intro conjI impI)
  assume "fst (update_position s p now cur) = Some (x, y)"
  from update_position_padded[OF w h this]
  show "SCREEN_PADDING \<le> x" "x \<le> screen_w s - SCREEN_PADDING"
       "SCREEN_PADDING \<le> y" "y \<le> screen_h s - SCREEN_PADDING" by simp_all
next
  assume m: "MoveTo mx my \<in> set (fst (snd (process_frame np s faces clk cur)))"
  then obtain n where ms: "fst (move_step s n (t_position clk) cur) = Some (mx, my)"
    using process_frame_move by blast
  from move_step_target[OF ms] obtain u v where
        uv: "fst (update_position s n (t_position clk) cur) = Some (u, v)"
    and tg: "case region_bounds (current_profile s) of
                 None \<Rightarrow> mx = real_of_int u \<and> my = real_of_int v
               | Some (x1, y1, x2, y2) \<Rightarrow>
                   mx = np_clip (real_of_int u) x1 x2 \<and> my = np_clip (real_of_int v) y1 y2"
    by blast
  note box = update_position_padded[OF w h uv]
  have bx: "real_of_int SCREEN_PADDING \<le> real_of_int u" "real_of_int u \<le> real_of_int (screen_w s - SCREEN_PADDING)"
       "real_of_int SCREEN_PADDING \<le> real_of_int v" "real_of_int v \<le> real_of_int (screen_h s - SCREEN_PADDING)"
    using box by simp_all
  {
    assume "region_bounds (current_profile s) = None"
    then show "padded s (mx, my)" using tg bx by (simp add: padded_def)
  }
  {
    assume rb: "region_bounds (current_profile s) = Some (x1, y1, x2, y2)"
    have eq: "mx = np_clip (real_of_int u) x1 x2 \<and> my = np_clip (real_of_int v) y1 y2"
      using tg rb by simp
    { assume "x1 \<le> x2" then show "x1 \<le> mx" "mx \<le> x2" using eq np_clip_between by simp_all }
    { assume "y1 \<le> y2" then show "y1 \<le> my" "my \<le> y2" using eq np_clip_between by simp_all }
    { assume "x1 \<le> real_of_int (screen_w s - SCREEN_PADDING) \<and> real_of_int SCREEN_PADDING \<le> x2
                      \<and> y1 \<le> real_of_int (screen_h s - SCREEN_PADDING) \<and> real_of_int SCREEN_PADDING \<le> y2"
      then show "padded s (mx, my)"
        using eq np_clip_stays[OF bx(1,2)] np_clip_stays[OF bx(3,4)] by (simp add: padded_def) }
  }
qed

theorem cursor_target_clamped_witness:
  "fst (snd (process_frame exact_numpy locked_tracker (Some closed_eyes) (clock_at 1) (500, 500)))
       = [MoveTo 500 450]
   \<and> padded locked_tracker (500, 450)
   \<and> fst (update_position locked_tracker (100, 100) 1 (500, 500)) = Some (500, 500)"
proof -
  have w: "2 * SCREEN_PADDING \<le> screen_w locked_tracker"
   and h: "2 * SCREEN_PADDING \<le> screen_h locked_tracker"
    by (simp_all add: locked_tracker_def calibrated_tracker_def new_FaceTracker_def SCREEN_PADDING_def)
  have rb: "region_bounds (current_profile locked_tracker) = Some (400, 300, 600, 450)"
    by (simp add: locked_tracker_def)
  have e: "fst (snd (process_frame exact_numpy locked_tracker (Some closed_eyes) (clock_at 1) (500, 500)))
       = [MoveTo 500 450]"
    unfolding locked_tracker_def
    by (subst process_frame_still) (simp_all add: new_UserProfile_def np_clip_def)
  have u: "fst (update_position locked_tracker (100, 100) 1 (500, 500)) = Some (500, 500)"
    unfolding locked_tracker_def by (simp add: update_position_profile)
  have o: "(400::real) \<le> real_of_int (screen_w locked_tracker - SCREEN_PADDING)
           \<and> real_of_int SCREEN_PADDING \<le> (600::real)
           \<and> (300::real) \<le> real_of_int (screen_h locked_tracker - SCREEN_PADDING)
           \<and> real_of_int SCREEN_PADDING \<le> (450::real)"
    by (simp add: locked_tracker_def calibrated_tracker_def new_FaceTracker_def SCREEN_PADDING_def)
  show ?thesis
    using cursor_target_clamped[OF w h, where p = "(100, 100)" and now = 1 and cur = "(500, 500)"
            and x = 500 and y = 500 and mx = 500 and my = 450 and np = exact_numpy
            and faces = "Some closed_eyes" and clk = "clock_at 1"
            and ?x1.0 = 400 and ?y1.0 = 300 and ?x2.0 = 600 and ?y2.0 = 450] e u rb o
    by simp
qed

section \<open>Calibration on identical points\<close>

lemma calibrate_frames_pending:
  "length (calibration_points s) + length ps \<le> CALIBRATION_FRAMES \<Longrightarrow>
     calibrate_frames np s ps = s\<lparr>calibration_points := calibration_points s @ ps\<rparr>"
proof (induction ps arbitrary: s)
  case Nil
  then show ?case by simp
next
  case (Cons q ps)
  then have room: "length (calibration_points s) < CALIBRATION_FRAMES" by simp
  then have step: "snd (calibrate np s q) = s\<lparr>calibration_points := calibration_points s @ [q]\<rparr>"
    by (simp add: calibrate_def)
  have "length (calibration_points (snd (calibrate np s q))) + length ps \<le> CALIBRATION_FRAMES"
    using Cons.prems step by simp
  from Cons.IH[OF this] show ?case using step by simp
qed

lemma mean_replicate: "0 < n \<Longrightarrow> mean (replicate n c) = c"
  by (simp add: mean_def sum_list_replicate)

lemma std_replicate: "std (replicate n c) = 0"
proof (cases n)
  case 0
  then show ?thesis by (simp add: std_def mean_def)
next
  case (Suc k)
  then have "0 < n" by simp
  then have m: "mean (replicate n c) = c" by (rule mean_replicate)
  show ?thesis unfolding std_def m by (simp add: mean_def sum_list_replicate)
qed

text \<open>No point is good when the standard deviation of one axis is 0.\<close>

lemma good_points_zero_std:
  assumes "np_multiply np 2 0 = 0"
      and "np_std np (map fst points) = 0 \<or> np_std np (map snd points) = 0"
  shows "good_points np points = []"
proof -
  have "\<not> (\<bar>np_subtract np (fst a) (np_mean np (map fst points))\<bar>
              < np_multiply np 2 (np_std np (map fst points))
            \<and> \<bar>np_subtract np (snd a) (np_mean np (map snd points))\<bar>
              < np_multiply np 2 (np_std np (map snd points)))" for a
    using assms by auto
  then show ?thesis by (simp add: good_points_def Let_def)
qed

lemma good_points_replicate: "good_points exact_numpy (replicate n q) = []"
  by (rule good_points_zero_std) (simp_all add: exact_numpy_def std_replicate)

text \<open>
  Claim C1 against the code.  From an empty buffer, \<open>CALIBRATION_FRAMES\<close> calls with the
  same point fill the buffer with copies of it.  Whenever the standard deviation of these
  copies comes out as 0 on one axis, as it does in floating point for integer pixel
  coordinates, the committing call returns \<open>False\<close> and puts the tracker back into the
  state it started from: the strict test \<open>|x - mean| < 2 * std\<close> holds for no point, so
  no point is good and the buffer is cleared.  The reference point is not set.
\<close>

theorem identical_points_rejected:
  assumes "calibration_points s = []"
      and "np_multiply np 2 0 = 0"
      and "np_std np (replicate CALIBRATION_FRAMES (fst q)) = 0
           \<or> np_std np (replicate CALIBRATION_FRAMES (snd q)) = 0"
  shows "calibration_points (calibrate_frames np s (replicate CALIBRATION_FRAMES q))
           = replicate CALIBRATION_FRAMES q
       \<and> calibrate np (calibrate_frames np s (replicate CALIBRATION_FRAMES q)) q = (False, s)"
proof -
  let ?s1 = "calibrate_frames np s (replicate CALIBRATION_FRAMES q)"
  have s1: "?s1 = s\<lparr>calibration_points := replicate CALIBRATION_FRAMES q\<rparr>"
    using calibrate_frames_pending[of s "replicate CALIBRATION_FRAMES q" np] assms(1) by simp
  have full: "\<not> length (calibration_points ?s1) < CALIBRATION_FRAMES"
    unfolding s1 by simp
  have none: "good_points np (replicate CALIBRATION_FRAMES q) = []"
    by (rule good_points_zero_std) (use assms(2,3) in simp_all)
  have few: "\<not> real CALIBRATION_FRAMES * CALIBRATION_THRESHOLD
               \<le> real (length (good_points np (replicate CALIBRATION_FRAMES q)))"
    unfolding none by (simp add: CALIBRATION_FRAMES_def CALIBRATION_THRESHOLD_def)
  have "calibrate np ?s1 q = (False, ?s1\<lparr>calibration_points := []\<rparr>)"
    using full few unfolding calibrate_def s1 by (simp add: Let_def)
  moreover have "?s1\<lparr>calibration_points := []\<rparr> = s"
    unfolding s1 using assms(1) by simp
  ultimately show ?thesis using s1 by simp
qed

theorem identical_points_rejected_witness:
  "calibrate exact_numpy
     (calibrate_frames exact_numpy (new_FaceTracker (1920, 1080) 0 (new_UserProfile ''default''))
        (replicate CALIBRATION_FRAMES (100, 100))) (100, 100)
     = (False, new_FaceTracker (1920, 1080) 0 (new_UserProfile ''default''))
   \<and> \<not> is_calibrated (new_FaceTracker (1920, 1080) 0 (new_UserProfile ''default''))
   \<and> np_std exact_numpy (replicate CALIBRATION_FRAMES 100) = 0"
proof -
  have e: "calibration_points (new_FaceTracker (1920, 1080) 0 (new_UserProfile ''default'')) = []"
    by (simp add: new_FaceTracker_def)
  have m: "np_multiply exact_numpy 2 0 = 0" by (simp add: exact_numpy_def)
  have z: "np_std exact_numpy (replicate CALIBRATION_FRAMES (fst (100, 100))) = 0
           \<or> np_std exact_numpy (replicate CALIBRATION_FRAMES (snd (100, 100))) = 0"
    by (simp add: exact_numpy_def std_replicate)
  have z': "np_std exact_numpy (replicate CALIBRATION_FRAMES 100) = 0"
    by (simp add: exact_numpy_def std_replicate)
  show ?thesis
    using identical_points_rejected[OF e m z] z'
    by (simp add: new_FaceTracker_def)
qed

section \<open>The calibration commit\<close>

lemma within_two_std:
  assumes "0 \<le> v"
  shows "(\<bar>d\<bar> < 2 * sqrt v) = (d\<^sup>2 < 4 * v)"
proof -
  have "2 * sqrt v = sqrt (4 * v)" by (simp add: real_sqrt_mult)
  moreover have "\<bar>d\<bar> = sqrt (d\<^sup>2)" by simp
  ultimately show ?thesis by (simp only: real_sqrt_less_iff)
qed

lemma steady_axis:
  "map fst steady_buffer = replicate 7 99 @ replicate 7 101 @ [100]"
  "map snd steady_buffer = replicate 7 99 @ replicate 7 101 @ [100]"
  by (simp_all add: steady_buffer_def)

lemma steady_mean: "mean (replicate 7 99 @ replicate 7 101 @ [100]) = 100"
  by (simp add: mean_def sum_list_replicate)

lemma steady_std: "std (replicate 7 99 @ replicate 7 101 @ [100]) = sqrt (14 / 15)"
  unfolding std_def steady_mean by (simp add: mean_def sum_list_replicate)

lemma steady_good: "good_points exact_numpy steady_buffer = steady_buffer"
proof -
  have a: "\<bar>(99::real) - 100\<bar> < 2 * sqrt (14 / 15)" "\<bar>(101::real) - 100\<bar> < 2 * sqrt (14 / 15)"
      "\<bar>(100::real) - 100\<bar> < 2 * sqrt (14 / 15)"
    by (subst within_two_std; simp)+
  have ops: "np_mean exact_numpy = mean" "np_std exact_numpy = std"
      "np_subtract exact_numpy = (-)" "np_multiply exact_numpy = (*)"
    by (simp_all add: exact_numpy_def)
  show ?thesis
    unfolding good_points_def ops steady_axis steady_mean steady_std Let_def
    using a by (simp add: steady_buffer_def)
qed

lemma acceptance_count:
  "(real CALIBRATION_FRAMES * CALIBRATION_THRESHOLD \<le> real n) = (11 \<le> n)"
  by (auto simp: CALIBRATION_FRAMES_def CALIBRATION_THRESHOLD_def)

lemma steady_commit:
  "calibrate exact_numpy ((new_FaceTracker (1920, 1080) 0 (new_UserProfile ''default''))
                \<lparr>calibration_points := steady_buffer\<rparr>) (100, 100)
     = (True, (new_FaceTracker (1920, 1080) 0 (new_UserProfile ''default''))
                \<lparr>calibration_points := steady_buffer, reference_point := Some (100, 100),
                  is_calibrated := True, velocity := (0, 0)\<rparr>)"
proof -
  have l: "length steady_buffer = 15" by (simp add: steady_buffer_def)
  have m: "np_mean exact_numpy = mean" by (simp add: exact_numpy_def)
  show ?thesis
    unfolding calibrate_def
    by (simp add: l m steady_good steady_axis steady_mean CALIBRATION_FRAMES_def
        CALIBRATION_THRESHOLD_def new_FaceTracker_def)
qed

text \<open>A successful commit on a full, non-empty buffer never empties it, whatever \<open>np\<close>.\<close>

lemma success_keeps_buffer:
  assumes "CALIBRATION_FRAMES \<le> length (calibration_points s)"
  shows "\<not> (fst (calibrate np s q) \<and> calibration_points (snd (calibrate np s q)) = [])"
proof -
  have "calibration_points s \<noteq> []" using assms by (auto simp: CALIBRATION_FRAMES_def)
  moreover have "\<not> length (calibration_points s) < CALIBRATION_FRAMES" using assms by simp
  ultimately show ?thesis by (simp add: calibrate_def Let_def)
qed

text \<open>
  Claim C3, as stated, fails in its success branch: the buffer is not cleared.  The commit
  on the full buffer \<open>steady_buffer\<close> succeeds and leaves its 15 points in the buffer; on
  this buffer the mean is exactly 100 and every deviation is at most 1, well below twice
  the standard deviation.  With any arithmetic at all, no commit on this buffer returns
  \<open>True\<close> with the buffer emptied.
\<close>

theorem buffer_kept_on_success:
  "fst (calibrate exact_numpy ((new_FaceTracker (1920, 1080) 0 (new_UserProfile ''default''))
                \<lparr>calibration_points := steady_buffer\<rparr>) (100, 100))
   \<and> length (calibration_points (snd (calibrate exact_numpy
        ((new_FaceTracker (1920, 1080) 0 (new_UserProfile ''default''))
                \<lparr>calibration_points := steady_buffer\<rparr>) (100, 100)))) = 15
   \<and> calibration_points (snd (calibrate exact_numpy
        ((new_FaceTracker (1920, 1080) 0 (new_UserProfile ''default''))
                \<lparr>calibration_points := steady_buffer\<rparr>) (100, 100))) \<noteq> []
   \<and> (\<forall>np q. \<not> (fst (calibrate np ((new_FaceTracker (1920, 1080) 0 (new_UserProfile ''default''))
                \<lparr>calibration_points := steady_buffer\<rparr>) q)
          \<and> calibration_points (snd (calibrate np
               ((new_FaceTracker (1920, 1080) 0 (new_UserProfile ''default''))
                \<lparr>calibration_points := steady_buffer\<rparr>) q)) = []))"
proof -
  have full: "CALIBRATION_FRAMES \<le> length (calibration_points
      ((new_FaceTracker (1920, 1080) 0 (new_UserProfile ''default''))
                \<lparr>calibration_points := steady_buffer\<rparr>))"
    by (simp add: steady_buffer_def CALIBRATION_FRAMES_def)
  show ?thesis
    using success_keeps_buffer[OF full]
    unfolding steady_commit by (simp add: steady_buffer_def)
qed

text \<open>
  Claim C3, amended.  On a full buffer, when the number of good points (those whose
  deviation from the mean is below two standard deviations on both axes, as NumPy
  computes them) is at least \<open>CALIBRATION_FRAMES * CALIBRATION_THRESHOLD\<close>, that is at
  least 11, \<open>calibrate\<close> sets the reference point to the mean of the good points, sets
  \<open>is_calibrated\<close>, resets the velocity to zero and returns \<open>True\<close>, leaving the buffer
  as it is.  Otherwise it clears the buffer and returns \<open>False\<close>.
\<close>

theorem calibrate_commit:
  assumes "CALIBRATION_FRAMES \<le> length (calibration_points s)"
  shows "(real CALIBRATION_FRAMES * CALIBRATION_THRESHOLD
              \<le> real (length (good_points np (calibration_points s))) \<longrightarrow>
            calibrate np s q =
              (True, s\<lparr>reference_point :=
                          Some (np_mean np (map fst (good_points np (calibration_points s))),
                                np_mean np (map snd (good_points np (calibration_points s)))),
                        is_calibrated := True,
                        velocity := (0, 0)\<rparr>)
            \<and> calibration_points (snd (calibrate np s q)) = calibration_points s)
       \<and> (\<not> real CALIBRATION_FRAMES * CALIBRATION_THRESHOLD
              \<le> real (length (good_points np (calibration_points s))) \<longrightarrow>
            calibrate np s q = (False, s\<lparr>calibration_points := []\<rparr>))
       \<and> ((real CALIBRATION_FRAMES * CALIBRATION_THRESHOLD
              \<le> real (length (good_points np (calibration_points s))))
            = (11 \<le> length (good_points np (calibration_points s))))
       \<and> (\<forall>a. a \<in> set (good_points np (calibration_points s)) \<longleftrightarrow>
              a \<in> set (calibration_points s)
              \<and> \<bar>np_subtract np (fst a) (np_mean np (map fst (calibration_points s)))\<bar>
                  < np_multiply np 2 (np_std np (map fst (calibration_points s)))
              \<and> \<bar>np_subtract np (snd a) (np_mean np (map snd (calibration_points s)))\<bar>
                  < np_multiply np 2 (np_std np (map snd (calibration_points s))))"
proof -
  have full: "\<not> length (calibration_points s) < CALIBRATION_FRAMES" using assms by simp
  have ok: "real CALIBRATION_FRAMES * CALIBRATION_THRESHOLD
              \<le> real (length (good_points np (calibration_points s))) \<Longrightarrow>
      calibrate np s q = (True, s\<lparr>reference_point :=
                          Some (np_mean np (map fst (good_points np (calibration_points s))),
                                np_mean np (map snd (good_points np (calibration_points s)))),
                        is_calibrated := True,
                        velocity := (0, 0)\<rparr>)"
    using full by (simp add: calibrate_def Let_def)
  have ko: "\<not> real CALIBRATION_FRAMES * CALIBRATION_THRESHOLD
              \<le> real (length (good_points np (calibration_points s))) \<Longrightarrow>
      calibrate np s q = (False, s\<lparr>calibration_points := []\<rparr>)"
    using full by (simp add: calibrate_def Let_def)
  have mem: "a \<in> set (good_points np (calibration_points s)) \<longleftrightarrow>
              a \<in> set (calibration_points s)
              \<and> \<bar>np_subtract np (fst a) (np_mean np (map fst (calibration_points s)))\<bar>
                  < np_multiply np 2 (np_std np (map fst (calibration_points s)))
              \<and> \<bar>np_subtract np (snd a) (np_mean np (map snd (calibration_points s)))\<bar>
                  < np_multiply np 2 (np_std np (map snd (calibration_points s)))"
    for a
    by (auto simp: good_points_def Let_def)
  show ?thesis
    using ok ko mem acceptance_count[of "length (good_points np (calibration_points s))"] by simp
qed

theorem calibrate_commit_witness:
  "calibrate exact_numpy ((new_FaceTracker (1920, 1080) 0 (new_UserProfile ''default''))
                \<lparr>calibration_points := steady_buffer\<rparr>) (100, 100)
     = (True, (new_FaceTracker (1920, 1080) 0 (new_UserProfile ''default''))
                \<lparr>calibration_points := steady_buffer, reference_point := Some (100, 100),
                  is_calibrated := True, velocity := (0, 0)\<rparr>)
   \<and> calibrate exact_numpy ((new_FaceTracker (1920, 1080) 0 (new_UserProfile ''default''))
                \<lparr>calibration_points := replicate 15 (100, 100)\<rparr>) (100, 100)
     = (False, new_FaceTracker (1920, 1080) 0 (new_UserProfile ''default''))"
proof -
  let ?t = "new_FaceTracker (1920, 1080) 0 (new_UserProfile ''default'')"
  have f1: "CALIBRATION_FRAMES \<le> length (calibration_points (?t\<lparr>calibration_points := steady_buffer\<rparr>))"
    by (simp add: steady_buffer_def CALIBRATION_FRAMES_def)
  have g1: "real CALIBRATION_FRAMES * CALIBRATION_THRESHOLD
      \<le> real (length (good_points exact_numpy
                         (calibration_points (?t\<lparr>calibration_points := steady_buffer\<rparr>))))"
    unfolding acceptance_count by (simp add: steady_good) (simp add: steady_buffer_def)
  have f2: "CALIBRATION_FRAMES \<le> length (calibration_points (?t\<lparr>calibration_points := replicate 15 (100, 100)\<rparr>))"
    by (simp add: CALIBRATION_FRAMES_def)
  have g2: "\<not> real CALIBRATION_FRAMES * CALIBRATION_THRESHOLD
      \<le> real (length (good_points exact_numpy
                         (calibration_points (?t\<lparr>calibration_points := replicate 15 (100, 100)\<rparr>))))"
    unfolding acceptance_count by (simp add: good_points_replicate)
  have m: "np_mean exact_numpy = mean" by (simp add: exact_numpy_def)
  show ?thesis
    using calibrate_commit[OF f1, of exact_numpy "(100, 100)"] g1
          calibrate_commit[OF f2, of exact_numpy "(100, 100)"] g2
    by (simp add: m steady_good steady_axis steady_mean) (simp add: new_FaceTracker_def)
qed

section \<open>Rejected settings payloads\<close>

lemma assign_float_result:
  "assign_float entry upd p =
     (case entry of
        None \<Rightarrow> Inr p
      | Some (Floatable r) \<Rightarrow> Inr (upd r p)
      | Some (NotFloatable msg) \<Rightarrow> Inl (msg, p))"
  by (simp add: assign_float_def py_float_def split: option.splits payload_value.splits)

lemma assign_float_raises:
  "raises entry \<Longrightarrow> \<exists>msg. entry = Some (NotFloatable msg) \<and> assign_float entry upd p = Inl (msg, p)"
  by (auto simp: raises_def assign_float_result split: option.splits payload_value.splits)

lemma assign_float_passes:
  "\<not> raises entry \<Longrightarrow>
     assign_float entry upd p = Inr (case entry of Some (Floatable r) \<Rightarrow> upd r p | _ \<Rightarrow> p)"
  by (auto simp: raises_def assign_float_result split: option.splits payload_value.splits)

lemma assigned_fields:
  "(case entry of Some (Floatable r) \<Rightarrow> p\<lparr>sensitivity := r\<rparr> | _ \<Rightarrow> p)
     = p\<lparr>sensitivity := assigned entry (sensitivity p)\<rparr>"
  "(case entry of Some (Floatable r) \<Rightarrow> p\<lparr>smoothing := r\<rparr> | _ \<Rightarrow> p)
     = p\<lparr>smoothing := assigned entry (smoothing p)\<rparr>"
  "(case entry of Some (Floatable r) \<Rightarrow> p\<lparr>blink_threshold := r\<rparr> | _ \<Rightarrow> p)
     = p\<lparr>blink_threshold := assigned entry (blink_threshold p)\<rparr>"
  "(case entry of Some (Floatable r) \<Rightarrow> p\<lparr>mouth_threshold := r\<rparr> | _ \<Rightarrow> p)
     = p\<lparr>mouth_threshold := assigned entry (mouth_threshold p)\<rparr>"
  by (simp_all add: assigned_def split: option.splits payload_value.splits)

lemma update_settings_first:
  assumes "raises (set_sensitivity st)"
  shows "\<exists>msg. update_settings s st = (Inl msg, [], s)"
proof -
  from assign_float_raises[OF assms] obtain msg where
    "assign_float (set_sensitivity st) (\<lambda>r p. p\<lparr>sensitivity := r\<rparr>) (current_profile s)
       = Inl (msg, current_profile s)" by blast
  then show ?thesis by (simp add: update_settings_def)
qed

lemma update_settings_second:
  assumes "\<not> raises (set_sensitivity st)" and "raises (set_smoothing st)"
  shows "\<exists>msg. update_settings s st =
           (Inl msg, [], s\<lparr>current_profile := (current_profile s)
              \<lparr>sensitivity := assigned (set_sensitivity st) (sensitivity (current_profile s))\<rparr>\<rparr>)"
proof -
  let ?p1 = "(current_profile s)\<lparr>sensitivity := assigned (set_sensitivity st) (sensitivity (current_profile s))\<rparr>"
  have a: "assign_float (set_sensitivity st) (\<lambda>r p. p\<lparr>sensitivity := r\<rparr>) (current_profile s) = Inr ?p1"
    using assign_float_passes[OF assms(1)] by (simp add: assigned_fields)
  from assign_float_raises[OF assms(2)] obtain msg where
    "assign_float (set_smoothing st) (\<lambda>r p. p\<lparr>smoothing := r\<rparr>) ?p1 = Inl (msg, ?p1)" by blast
  then show ?thesis using a by (simp add: update_settings_def)
qed

lemma update_settings_third:
  assumes "\<not> raises (set_sensitivity st)" and "\<not> raises (set_smoothing st)"
      and "raises (set_blink_threshold st)"
  shows "\<exists>msg. update_settings s st =
           (Inl msg, [], s\<lparr>current_profile := (current_profile s)
              \<lparr>sensitivity := assigned (set_sensitivity st) (sensitivity (current_profile s)),
               smoothing := assigned (set_smoothing st) (smoothing (current_profile s))\<rparr>\<rparr>)"
proof -
  let ?p1 = "(current_profile s)\<lparr>sensitivity := assigned (set_sensitivity st) (sensitivity (current_profile s))\<rparr>"
  let ?p2 = "?p1\<lparr>smoothing := assigned (set_smoothing st) (smoothing (current_profile s))\<rparr>"
  have a: "assign_float (set_sensitivity st) (\<lambda>r p. p\<lparr>sensitivity := r\<rparr>) (current_profile s) = Inr ?p1"
    using assign_float_passes[OF assms(1)] by (simp add: assigned_fields)
  have b: "assign_float (set_smoothing st) (\<lambda>r p. p\<lparr>smoothing := r\<rparr>) ?p1 = Inr ?p2"
    using assign_float_passes[OF assms(2)] by (simp add: assigned_fields)
  from assign_float_raises[OF assms(3)] obtain msg where
    "assign_float (set_blink_threshold st) (\<lambda>r p. p\<lparr>blink_threshold := r\<rparr>) ?p2 = Inl (msg, ?p2)" by blast
  then show ?thesis using a b by (simp add: update_settings_def)
qed

lemma update_settings_fourth:
  assumes "\<not> raises (set_sensitivity st)" and "\<not> raises (set_smoothing st)"
      and "\<not> raises (set_blink_threshold st)" and "raises (set_mouth_threshold st)"
  shows "\<exists>msg. update_settings s st =
           (Inl msg, [], s\<lparr>current_profile := (current_profile s)
              \<lparr>sensitivity := assigned (set_sensitivity st) (sensitivity (current_profile s)),
               smoothing := assigned (set_smoothing st) (smoothing (current_profile s)),
               blink_threshold := assigned (set_blink_threshold st) (blink_threshold (current_profile s))\<rparr>\<rparr>)"
proof -
  let ?p1 = "(current_profile s)\<lparr>sensitivity := assigned (set_sensitivity st) (sensitivity (current_profile s))\<rparr>"
  let ?p2 = "?p1\<lparr>smoothing := assigned (set_smoothing st) (smoothing (current_profile s))\<rparr>"
  let ?p3 = "?p2\<lparr>blink_threshold := assigned (set_blink_threshold st) (blink_threshold (current_profile s))\<rparr>"
  have a: "assign_float (set_sensitivity st) (\<lambda>r p. p\<lparr>sensitivity := r\<rparr>) (current_profile s) = Inr ?p1"
    using assign_float_passes[OF assms(1)] by (simp add: assigned_fields)
  have b: "assign_float (set_smoothing st) (\<lambda>r p. p\<lparr>smoothing := r\<rparr>) ?p1 = Inr ?p2"
    using assign_float_passes[OF assms(2)] by (simp add: assigned_fields)
  have c: "assign_float (set_blink_threshold st) (\<lambda>r p. p\<lparr>blink_threshold := r\<rparr>) ?p2 = Inr ?p3"
    using assign_float_passes[OF assms(3)] by (simp add: assigned_fields)
  from assign_float_raises[OF assms(4)] obtain msg where
    "assign_float (set_mouth_threshold st) (\<lambda>r p. p\<lparr>mouth_threshold := r\<rparr>) ?p3 = Inl (msg, ?p3)" by blast
  then show ?thesis using a b c by (simp add: update_settings_def)
qed

lemma handle_settings_update_error:
  "update_settings s st = (Inl msg, es, s1) \<Longrightarrow> handle_settings_update s st = (StatusError msg, es, s1)"
  by (simp add: handle_settings_update_def)

lemma mixed_settings_result:
  "update_settings calibrated_tracker mixed_settings
     = (Inl ''could not convert string to float'', [],
        calibrated_tracker\<lparr>current_profile := (new_UserProfile ''default'')\<lparr>sensitivity := 2\<rparr>\<rparr>)"
  by (simp add: update_settings_def assign_float_def py_float_def mixed_settings_def
      calibrated_tracker_def new_FaceTracker_def)

text \<open>
  Claim C7, as stated, fails: a rejected payload can leave the profile changed.  With a
  numeric sensitivity and a non-numeric smoothing the caller gets the error, and the
  sensitivity of the active profile has gone from 1 to 2.
\<close>

theorem rejected_payload_mutates:
  "fst (handle_settings_update calibrated_tracker mixed_settings)
       = StatusError ''could not convert string to float''
   \<and> sensitivity (current_profile calibrated_tracker) = 1
   \<and> sensitivity (current_profile (snd (snd (handle_settings_update calibrated_tracker mixed_settings)))) = 2
   \<and> snd (snd (handle_settings_update calibrated_tracker mixed_settings)) \<noteq> calibrated_tracker"
proof -
  have h: "handle_settings_update calibrated_tracker mixed_settings
     = (StatusError ''could not convert string to float'', [],
        calibrated_tracker\<lparr>current_profile := (new_UserProfile ''default'')\<lparr>sensitivity := 2\<rparr>\<rparr>)"
    by (simp add: handle_settings_update_def mixed_settings_result)
  have one: "sensitivity (current_profile calibrated_tracker) = 1"
    by (simp add: calibrated_tracker_def new_FaceTracker_def new_UserProfile_def)
  have two: "sensitivity (current_profile (snd (snd (handle_settings_update calibrated_tracker mixed_settings)))) = 2"
    unfolding h by simp
  have "snd (snd (handle_settings_update calibrated_tracker mixed_settings)) \<noteq> calibrated_tracker"
  proof
    assume "snd (snd (handle_settings_update calibrated_tracker mixed_settings)) = calibrated_tracker"
    then have "sensitivity (current_profile calibrated_tracker) = 2" using two by simp
    then show False using one by simp
  qed
  then show ?thesis using h one two by simp
qed

text \<open>
  Claim C7, amended.  A payload with a value that \<open>float()\<close> rejects under one of the keys
  sensitivity, smoothing, blink_threshold, mouth_threshold makes the update fail with that
  error reported to the caller, and nothing is saved.  The tracker changes in its profile
  only; there the name, the region, the calibration data and the mouth threshold are as
  before, and so is every numeric field from the first rejected key on, in the order of
  the keys above.  The numeric fields before the first rejected key hold their payload
  values where the payload has the key: the update is not atomic.
\<close>

theorem settings_rejection:
  assumes "raises (set_sensitivity st) \<or> raises (set_smoothing st)
           \<or> raises (set_blink_threshold st) \<or> raises (set_mouth_threshold st)"
  shows "\<exists>msg p1. update_settings s st = (Inl msg, [], s\<lparr>current_profile := p1\<rparr>)
           \<and> handle_settings_update s st = (StatusError msg, [], s\<lparr>current_profile := p1\<rparr>)
           \<and> name p1 = name (current_profile s)
           \<and> region_bounds p1 = region_bounds (current_profile s)
           \<and> calibration_data p1 = calibration_data (current_profile s)
           \<and> mouth_threshold p1 = mouth_threshold (current_profile s)
           \<and> sensitivity p1 =
               (if raises (set_sensitivity st) then sensitivity (current_profile s)
                else assigned (set_sensitivity st) (sensitivity (current_profile s)))
           \<and> smoothing p1 =
               (if raises (set_sensitivity st) \<or> raises (set_smoothing st)
                then smoothing (current_profile s)
                else assigned (set_smoothing st) (smoothing (current_profile s)))
           \<and> blink_threshold p1 =
               (if raises (set_sensitivity st) \<or> raises (set_smoothing st)
                   \<or> raises (set_blink_threshold st)
                then blink_threshold (current_profile s)
                else assigned (set_blink_threshold st) (blink_threshold (current_profile s)))"
proof -
  consider (a) "raises (set_sensitivity st)"
    | (b) "\<not> raises (set_sensitivity st)" "raises (set_smoothing st)"
    | (c) "\<not> raises (set_sensitivity st)" "\<not> raises (set_smoothing st)" "raises (set_blink_threshold st)"
    | (d) "\<not> raises (set_sensitivity st)" "\<not> raises (set_smoothing st)"
          "\<not> raises (set_blink_threshold st)" "raises (set_mouth_threshold st)"
    using assms by blast
  then show ?thesis
  proof cases
    case a
    from update_settings_first[OF a, of s] obtain msg where u: "update_settings s st = (Inl msg, [], s)" by blast
    have "s = s\<lparr>current_profile := current_profile s\<rparr>" by simp
    then show ?thesis using u handle_settings_update_error[OF u] a
      by (intro exI[of _ msg] exI[of _ "current_profile s"]) simp
  next
    case b
    from update_settings_second[OF b, of s] obtain msg p1 where
      u: "update_settings s st = (Inl msg, [], s\<lparr>current_profile := p1\<rparr>)"
      and p1: "p1 = (current_profile s)
              \<lparr>sensitivity := assigned (set_sensitivity st) (sensitivity (current_profile s))\<rparr>" by blast
    show ?thesis using u handle_settings_update_error[OF u] b p1
      by (intro exI[of _ msg] exI[of _ p1]) simp
  next
    case c
    from update_settings_third[OF c, of s] obtain msg p1 where
      u: "update_settings s st = (Inl msg, [], s\<lparr>current_profile := p1\<rparr>)"
      and p1: "p1 = (current_profile s)
              \<lparr>sensitivity := assigned (set_sensitivity st) (sensitivity (current_profile s)),
               smoothing := assigned (set_smoothing st) (smoothing (current_profile s))\<rparr>" by blast
    show ?thesis using u handle_settings_update_error[OF u] c p1
      by (intro exI[of _ msg] exI[of _ p1]) simp
  next
    case d
    from update_settings_fourth[OF d, of s] obtain msg p1 where
      u: "update_settings s st = (Inl msg, [], s\<lparr>current_profile := p1\<rparr>)"
      and p1: "p1 = (current_profile s)
              \<lparr>sensitivity := assigned (set_sensitivity st) (sensitivity (current_profile s)),
               smoothing := assigned (set_smoothing st) (smoothing (current_profile s)),
               blink_threshold := assigned (set_blink_threshold st) (blink_threshold (current_profile s))\<rparr>" by blast
    show ?thesis using u handle_settings_update_error[OF u] d p1
      by (intro exI[of _ msg] exI[of _ p1]) simp
  qed
qed

theorem settings_rejection_witness:
  "handle_settings_update calibrated_tracker mixed_settings
     = (StatusError ''could not convert string to float'', [],
        calibrated_tracker\<lparr>current_profile := (new_UserProfile ''default'')\<lparr>sensitivity := 2\<rparr>\<rparr>)
   \<and> raises (set_smoothing mixed_settings)"
proof -
  have r: "raises (set_sensitivity mixed_settings) \<or> raises (set_smoothing mixed_settings)
           \<or> raises (set_blink_threshold mixed_settings) \<or> raises (set_mouth_threshold mixed_settings)"
    by (simp add: raises_def mixed_settings_def)
  have r2: "raises (set_smoothing mixed_settings)" by (simp add: raises_def mixed_settings_def)
  from settings_rejection[OF r, of calibrated_tracker] obtain msg p1 where
      u: "update_settings calibrated_tracker mixed_settings
            = (Inl msg, [], calibrated_tracker\<lparr>current_profile := p1\<rparr>)"
  and h: "handle_settings_update calibrated_tracker mixed_settings
            = (StatusError msg, [], calibrated_tracker\<lparr>current_profile := p1\<rparr>)"
    by blast
  from u have "msg = ''could not convert string to float''"
      and "calibrated_tracker\<lparr>current_profile := p1\<rparr>
           = calibrated_tracker\<lparr>current_profile := (new_UserProfile ''default'')\<lparr>sensitivity := 2\<rparr>\<rparr>"
    unfolding mixed_settings_result by simp_all
  then show ?thesis using h r2 by simp
qed

end
